theory Spec2Isabelle
  imports Complex_Main "HOL-Library.Multiset"
begin

section \<open>The transaction store (database.py)\<close>

text \<open>
  Timestamps are the values of \<^verbatim>\<open>datetime.now(timezone.utc)\<close>; only their order
  matters, so they are natural numbers (ticks since some epoch). Every operation that reads
  the clock takes the value it reads as an argument.
\<close>

type_synonym timestamp = nat

text \<open>
  One row of the table \<^verbatim>\<open>transactions\<close> (class \<^verbatim>\<open>Transaction\<close>). The status column is
  a string, as in the source. The columns \<^verbatim>\<open>processed_at\<close>, \<^verbatim>\<open>processing_started_at\<close> and
  \<^verbatim>\<open>error_message\<close> are nullable and have no default; \<^verbatim>\<open>created_at\<close> and
  \<^verbatim>\<open>webhook_received_at\<close> are given a value by the only insertion of the code. The amount
  is a Float column that the code only copies.
\<close>

record transaction =
  transaction_id :: string
  source_account :: string
  destination_account :: string
  amount :: real
  currency :: string
  status :: string
  created_at :: timestamp
  processed_at :: "timestamp option"
  webhook_received_at :: timestamp
  processing_started_at :: "timestamp option"
  is_processing :: bool
  error_message :: "string option"

text \<open>The persisted table: its rows in insertion order.\<close>

type_synonym db = "transaction list"

text \<open>
  \<^verbatim>\<open>db.query(Transaction).filter(Transaction.transaction_id == tid).first()\<close>:
  the first row with that key, or \<^verbatim>\<open>None\<close>.
\<close>

definition query_first :: "string \<Rightarrow> db \<Rightarrow> transaction option" where
  "query_first tid d = find (\<lambda>t. transaction_id t = tid) d"

text \<open>
  A committed change of a loaded row: the UPDATE that the session flushes is keyed by the
  primary key and rewrites the columns assigned since the load.
\<close>

definition update_row :: "string \<Rightarrow> (transaction \<Rightarrow> transaction) \<Rightarrow> db \<Rightarrow> db" where
  "update_row tid f d = map (\<lambda>t. if transaction_id t = tid then f t else t) d"

text \<open>The primary-key constraint on \<^verbatim>\<open>transaction_id\<close>.\<close>

definition primary_key_ok :: "db \<Rightarrow> bool" where
  "primary_key_ok d = distinct (map transaction_id d)"


section \<open>Ingestion (main.py, receive_webhook)\<close>

text \<open>
  The validated request body. The class \<^verbatim>\<open>TransactionWebhook\<close> lives in the schemas module;
  the handler reads exactly these five attributes of it.
\<close>

record transaction_webhook =
  w_transaction_id :: string
  w_source_account :: string
  w_destination_account :: string
  w_amount :: real
  w_currency :: string

text \<open>The response: the status code of the route decorator and the returned dictionary.\<close>

record ack =
  status_code :: nat
  message :: string
  ack_transaction_id :: string

definition acknowledged :: "string \<Rightarrow> ack" where
  "acknowledged tid =
     \<lparr>status_code = 202, message = ''Webhook acknowledged'', ack_transaction_id = tid\<rparr>"

text \<open>
  What one call of \<^verbatim>\<open>receive_webhook\<close> does: the response, the argument of the call of
  \<^verbatim>\<open>process_in_background\<close> when there is one, and the table afterwards.
\<close>

record ingest_result =
  response :: ack
  dispatched :: "string option"
  store :: db

text \<open>
  The two clock readings are those of \<^verbatim>\<open>created_at\<close> and \<^verbatim>\<open>webhook_received_at\<close>. The
  columns that the constructor call does not mention get their defaults at insertion:
  \<^verbatim>\<open>is_processing = False\<close>, the nullable columns NULL.
\<close>

definition receive_webhook ::
  "transaction_webhook \<Rightarrow> timestamp \<Rightarrow> timestamp \<Rightarrow> db \<Rightarrow> ingest_result" where
  "receive_webhook webhook now_created now_received d =
     (let tid = w_transaction_id webhook in
      case query_first tid d of
        Some existing \<Rightarrow>
          \<lparr>response = acknowledged tid, dispatched = None, store = d\<rparr>
      | None \<Rightarrow>
          (let new_row =
             \<lparr>transaction_id = tid,
              source_account = w_source_account webhook,
              destination_account = w_destination_account webhook,
              amount = w_amount webhook,
              currency = w_currency webhook,
              status = ''PROCESSING'',
              created_at = now_created,
              processed_at = None,
              webhook_received_at = now_received,
              processing_started_at = None,
              is_processing = False,
              error_message = None\<rparr>
           in \<lparr>response = acknowledged tid, dispatched = Some tid, store = d @ [new_row]\<rparr>))"

section \<open>Status queries (main.py, get_transaction and list_transactions)\<close>

datatype http_error = NotFound404

definition get_transaction :: "string \<Rightarrow> db \<Rightarrow> http_error + transaction list" where
  "get_transaction tid d =
     (case query_first tid d of
        None \<Rightarrow> Inl NotFound404
      | Some t \<Rightarrow> Inr [t])"

text \<open>
  \<^verbatim>\<open>order_by(Transaction.webhook_received_at.desc()).all()\<close>. SQL leaves the order of rows
  with equal keys open; the model fixes one such order.
\<close>

definition list_transactions :: "db \<Rightarrow> transaction list" where
  "list_transactions d = rev (sort_key webhook_received_at d)"

section \<open>The background processor (background_tasks.py, process_transaction)\<close>

text \<open>
  How the simulated external call \<^verbatim>\<open>await asyncio.sleep(30)\<close> ends. It completes, or the
  run is cut there: the coroutine runs on a daemon thread (main.py,
  \<^verbatim>\<open>process_in_background\<close>), which ends with the process, and the only exception that the
  sleep itself raises is a cancellation, which \<^verbatim>\<open>except Exception\<close> does not catch. Either
  way the run writes nothing more.
\<close>

datatype wait_outcome = Completed | Cut

text \<open>
  The environment of one run: the two clock readings and, for every statement of the
  function that talks to the store, whether it raises (with the text of the exception).
\<close>

record run_env =
  load_fault :: "string option"
  now_started :: timestamp
  mark_fault :: "string option"
  wait :: wait_outcome
  now_processed :: timestamp
  done_fault :: "string option"
  reload_fault :: "string option"
  fail_fault :: "string option"

text \<open>
  How the body of the \<^verbatim>\<open>try\<close> ends: it runs to its end or to one of its \<^verbatim>\<open>return\<close>s, a
  query raises, a commit raises (each with the \<^verbatim>\<open>str(e)\<close> of the exception), or the run is
  cut during the wait.
\<close>

datatype try_outcome = Fell_through | Query_raised string | Commit_raised string | Unwound

text \<open>
  An exception that leaves the run: one that the store raised, or the refusal of a session
  whose commit has failed and that has not been rolled back.
\<close>

datatype raised = Store_error string | Pending_rollback

text \<open>How the coroutine ends: it returns, an exception leaves it, or it never finishes.\<close>

datatype run_result = Returned | Propagated raised | Not_completed

definition mark_processing :: "timestamp \<Rightarrow> transaction \<Rightarrow> transaction" where
  "mark_processing now t = t\<lparr>is_processing := True, processing_started_at := Some now\<rparr>"

definition mark_processed :: "timestamp \<Rightarrow> transaction \<Rightarrow> transaction" where
  "mark_processed now t =
     t\<lparr>status := ''PROCESSED'', processed_at := Some now, is_processing := False\<rparr>"

definition mark_failed :: "string \<Rightarrow> transaction \<Rightarrow> transaction" where
  "mark_failed e t =
     t\<lparr>status := ''FAILED'', error_message := Some e, is_processing := False\<rparr>"

text \<open>
  The body of the \<^verbatim>\<open>try\<close>, statement by statement: the first query, the two early
  returns, the commit that marks the row, the wait, the commit of the final write. The
  assignments to the loaded object reach the table only with the commit that follows them;
  a commit that raises writes nothing, so the table stays as the last successful commit
  left it.
\<close>

definition try_block :: "run_env \<Rightarrow> string \<Rightarrow> db \<Rightarrow> try_outcome \<times> db" where
  "try_block env tid d =
     (case load_fault env of
        Some e \<Rightarrow> (Query_raised e, d)
      | None \<Rightarrow>
     (case query_first tid d of
        None \<Rightarrow> (Fell_through, d)
      | Some t \<Rightarrow>
          if status t \<in> set [''PROCESSED'', ''FAILED''] then (Fell_through, d)
          else
     (case mark_fault env of
        Some e \<Rightarrow> (Commit_raised e, d)
      | None \<Rightarrow>
          (let d1 = update_row tid (mark_processing (now_started env)) d in
     (case wait env of
        Cut \<Rightarrow> (Unwound, d1)
      | Completed \<Rightarrow>
     (case done_fault env of
        Some e \<Rightarrow> (Commit_raised e, d1)
      | None \<Rightarrow> (Fell_through, update_row tid (mark_processed (now_processed env)) d1)))))))"

text \<open>
  The \<^verbatim>\<open>except Exception as e\<close> clause, entered with the caught \<^verbatim>\<open>str(e)\<close>. It starts with
  a query on the same session. After a query that raised the session is still usable. After
  a commit that raised it is not: the session refuses every statement until
  \<^verbatim>\<open>rollback()\<close>, which the function never calls, so the query of the handler raises at
  once. An exception raised inside the clause leaves the run, and nothing is written.
\<close>

definition except_block ::
  "run_env \<Rightarrow> bool \<Rightarrow> string \<Rightarrow> string \<Rightarrow> db \<Rightarrow> run_result \<times> db" where
  "except_block env session_usable tid e d =
     (if \<not> session_usable then (Propagated Pending_rollback, d)
      else
     (case reload_fault env of
        Some e' \<Rightarrow> (Propagated (Store_error e'), d)
      | None \<Rightarrow>
     (case query_first tid d of
        None \<Rightarrow> (Returned, d)
      | Some t \<Rightarrow>
     (case fail_fault env of
        Some e' \<Rightarrow> (Propagated (Store_error e'), d)
      | None \<Rightarrow> (Returned, update_row tid (mark_failed e) d)))))"

definition process_transaction :: "run_env \<Rightarrow> string \<Rightarrow> db \<Rightarrow> run_result \<times> db" where
  "process_transaction env tid d =
     (case try_block env tid d of
        (Fell_through, d') \<Rightarrow> (Returned, d')
      | (Unwound, d') \<Rightarrow> (Not_completed, d')
      | (Query_raised e, d') \<Rightarrow> except_block env True tid e d'
      | (Commit_raised e, d') \<Rightarrow> except_block env False tid e d')"

section \<open>Histories of operations\<close>

text \<open>
  A history is a sequence of ingest calls and processor runs, each taken as one step on the
  table. The runs of a history are arbitrary: they need not be the ones that ingestion
  dispatched.
\<close>

datatype operation =
  Ingest transaction_webhook timestamp timestamp
| Run run_env string

fun apply_operation :: "db \<Rightarrow> operation \<Rightarrow> db" where
  "apply_operation d (Ingest w a b) = store (receive_webhook w a b d)"
| "apply_operation d (Run env tid) = snd (process_transaction env tid d)"

definition execute :: "operation list \<Rightarrow> db \<Rightarrow> db" where
  "execute ops d = foldl apply_operation d ops"


section \<open>Notions used in the statements and proofs\<close>

text \<open>
  What the \<^verbatim>\<open>except\<close> clause does to a row when the session is still usable: it marks
  the row failed when its own query and commit go through, and writes nothing otherwise.
\<close>

definition handled :: "run_env \<Rightarrow> string \<Rightarrow> transaction \<Rightarrow> transaction" where
  "handled env e =
     (if reload_fault env = None \<and> fail_fault env = None then mark_failed e else (\<lambda>t. t))"

text \<open>
  What a whole run does to a row with the key it was started for, when \<open>t0\<close> is the row
  that its first query returned. Lemma \<open>process_transaction_rows\<close> below proves that
  \<open>process_transaction\<close> changes the table in exactly this way.
\<close>

definition row_effect :: "run_env \<Rightarrow> transaction \<Rightarrow> transaction \<Rightarrow> transaction" where
  "row_effect env t0 =
     (case load_fault env of
        Some e \<Rightarrow> handled env e
      | None \<Rightarrow>
          if status t0 \<in> set [''PROCESSED'', ''FAILED''] then (\<lambda>t. t)
          else
     (case mark_fault env of
        Some e \<Rightarrow> (\<lambda>t. t)
      | None \<Rightarrow>
     (case wait env of
        Cut \<Rightarrow> mark_processing (now_started env)
      | Completed \<Rightarrow>
     (case done_fault env of
        Some e \<Rightarrow> mark_processing (now_started env)
      | None \<Rightarrow> mark_processed (now_processed env) \<circ> mark_processing (now_started env)))))"

text \<open>A row as the insertion of \<^verbatim>\<open>receive_webhook\<close> leaves it.\<close>

definition fresh_row :: "transaction \<Rightarrow> bool" where
  "fresh_row t \<longleftrightarrow>
     status t = ''PROCESSING'' \<and> \<not> is_processing t \<and> processed_at t = None \<and>
     processing_started_at t = None \<and> error_message t = None"

definition row_invariant :: "transaction \<Rightarrow> bool" where
  "row_invariant t \<longleftrightarrow>
     status t \<in> set [''PROCESSING'', ''PROCESSED'', ''FAILED''] \<and>
     (is_processing t \<longrightarrow> status t = ''PROCESSING'')"

text \<open>The two equivalences between the outcome columns and the status.\<close>

definition outcome_consistent :: "transaction \<Rightarrow> bool" where
  "outcome_consistent t \<longleftrightarrow>
     (processed_at t \<noteq> None \<longleftrightarrow> status t = ''PROCESSED'') \<and>
     (error_message t \<noteq> None \<longleftrightarrow> status t = ''FAILED'')"

text \<open>A run whose first query does not raise; an ingest call always counts.\<close>

fun loads :: "operation \<Rightarrow> bool" where
  "loads (Ingest w a b) = True"
| "loads (Run env tid) = (load_fault env = None)"

text \<open>Concrete inputs for the examples: the notification of the scenario in the
  specification, the row it creates when the clock reads 1 and 2, and a run in which nothing
  raises, started at 3 and finished at 33.\<close>

definition example_webhook :: transaction_webhook where
  "example_webhook =
     \<lparr>w_transaction_id = ''t1'', w_source_account = ''a'', w_destination_account = ''b'',
      w_amount = 100, w_currency = ''USD''\<rparr>"

definition example_row :: transaction where
  "example_row =
     \<lparr>transaction_id = ''t1'', source_account = ''a'', destination_account = ''b'',
      amount = 100, currency = ''USD'', status = ''PROCESSING'', created_at = 1,
      processed_at = None, webhook_received_at = 2, processing_started_at = None,
      is_processing = False, error_message = None\<rparr>"

definition quiet_env :: run_env where
  "quiet_env =
     \<lparr>load_fault = None, now_started = 3, mark_fault = None, wait = Completed,
      now_processed = 33, done_fault = None, reload_fault = None, fail_fault = None\<rparr>"

section \<open>Facts about the store\<close>

lemma query_first_None_iff: "query_first tid d = None \<longleftrightarrow> tid \<notin> set (map transaction_id d)"
  by (auto simp: query_first_def find_None_iff)

lemma query_first_Some_D: "query_first tid d = Some t \<Longrightarrow> t \<in> set d \<and> transaction_id t = tid"
  by (auto simp: query_first_def find_Some_iff)

lemma query_first_append:
  "query_first tid (d @ e) = (case query_first tid d of Some t \<Rightarrow> Some t | None \<Rightarrow> query_first tid e)"
  by (induction d) (auto simp: query_first_def)

lemma ids_update_row:
  "(\<And>t. transaction_id (f t) = transaction_id t) \<Longrightarrow> map transaction_id (update_row tid f d) = map transaction_id d"
  by (induction d) (auto simp: update_row_def)

lemma id_mark [simp]:
  "transaction_id (mark_processing n t) = transaction_id t"
  "transaction_id (mark_processed n t) = transaction_id t"
  "transaction_id (mark_failed e t) = transaction_id t"
  by (simp_all add: mark_processing_def mark_processed_def mark_failed_def)

lemma ids_try_block: "map transaction_id (snd (try_block env tid d)) = map transaction_id d"
  by (simp add: try_block_def ids_update_row Let_def split: option.splits wait_outcome.splits)

lemma ids_except_block:
  "map transaction_id (snd (except_block env u tid e d)) = map transaction_id d"
  by (simp add: except_block_def ids_update_row split: option.splits)

lemma ids_process_transaction:
  "map transaction_id (snd (process_transaction env tid d)) = map transaction_id d"
proof (cases "try_block env tid d")
  case (Pair out d')
  have d': "map transaction_id d' = map transaction_id d"
    using ids_try_block [of env tid d] Pair by simp
  show ?thesis
    using d' ids_except_block [of env _ tid _ d']
    by (cases out) (simp_all add: process_transaction_def Pair)
qed

lemma ids_receive_webhook:
  "map transaction_id (store (receive_webhook w a b d)) =
     (if w_transaction_id w \<in> set (map transaction_id d) then map transaction_id d
      else map transaction_id d @ [w_transaction_id w])"
proof (cases "query_first (w_transaction_id w) d")
  case None
  then show ?thesis
    using query_first_None_iff [of "w_transaction_id w" d]
    by (simp add: receive_webhook_def Let_def)
next
  case (Some t)
  then have "w_transaction_id w \<in> set (map transaction_id d)"
    using query_first_None_iff [of "w_transaction_id w" d] by simp
  with Some show ?thesis
    by (simp add: receive_webhook_def Let_def)
qed

lemma primary_key_apply:
  "primary_key_ok d \<Longrightarrow> primary_key_ok (apply_operation d x)"
  by (cases x) (auto simp: primary_key_ok_def ids_process_transaction ids_receive_webhook)




lemma execute_append: "execute (xs @ ys) d = execute ys (execute xs d)"
  by (simp add: execute_def)







lemma update_row_id [simp]: "update_row tid (\<lambda>t. t) d = d"
  by (induction d) (simp_all add: update_row_def)

lemma update_row_twice:
  "(\<And>t. transaction_id (f t) = transaction_id t) \<Longrightarrow>
   update_row tid g (update_row tid f d) = update_row tid (g \<circ> f) d"
  by (induction d) (simp_all add: update_row_def)

lemma query_first_update_row:
  "(\<And>t. transaction_id (f t) = transaction_id t) \<Longrightarrow>
   query_first tid (update_row tid f d) = map_option f (query_first tid d)"
  by (induction d) (simp_all add: update_row_def query_first_def)

lemma query_first_update_other:
  "(\<And>t. transaction_id (f t) = transaction_id t) \<Longrightarrow> tid' \<noteq> tid \<Longrightarrow>
   query_first tid' (update_row tid f d) = query_first tid' d"
  by (induction d) (simp_all add: update_row_def query_first_def)

lemma except_block_rows:
  "query_first tid d = Some t0 \<Longrightarrow>
   snd (except_block env True tid e d) = update_row tid (handled env e) d"
  by (simp add: except_block_def handled_def split: option.splits)

lemma except_block_absent:
  "query_first tid d = None \<Longrightarrow> snd (except_block env u tid e d) = d"
  by (simp add: except_block_def split: option.splits)

lemma process_transaction_absent:
  "query_first tid d = None \<Longrightarrow> snd (process_transaction env tid d) = d"
  by (simp add: process_transaction_def try_block_def except_block_absent split: option.splits)

lemma except_block_refused: "snd (except_block env False tid e d) = d"
  by (simp add: except_block_def)

lemma process_transaction_rows:
  assumes "query_first tid d = Some t0"
  shows "snd (process_transaction env tid d) = update_row tid (row_effect env t0) d"
proof -
  have h0: "snd (except_block env True tid e d) = update_row tid (handled env e) d" for e
    using assms by (rule except_block_rows)
  have fin: "update_row tid (mark_processed (now_processed env))
        (update_row tid (mark_processing (now_started env)) d) =
      update_row tid (mark_processed (now_processed env) \<circ> mark_processing (now_started env)) d"
    by (simp add: update_row_twice)
  show ?thesis
    by (simp add: process_transaction_def try_block_def row_effect_def assms h0 fin Let_def
        except_block_refused split: option.splits wait_outcome.splits)
qed

lemma unique_row:
  assumes "primary_key_ok d" "query_first tid d = Some t0" "t \<in> set d" "transaction_id t = tid"
  shows "t = t0"
proof -
  have "inj_on transaction_id (set d)"
    using assms(1) by (simp add: primary_key_ok_def distinct_map)
  moreover have "t0 \<in> set d" "transaction_id t0 = tid"
    using query_first_Some_D [OF assms(2)] by simp_all
  ultimately show ?thesis using assms(3,4) by (auto dest: inj_onD)
qed

lemma update_row_unique:
  assumes "primary_key_ok d" "query_first tid d = Some t0"
  shows "set (update_row tid f d) \<subseteq> insert (f t0) (set d)"
  using unique_row [OF assms] by (auto simp: update_row_def)

lemma process_transaction_set:
  assumes "primary_key_ok d" "t \<in> set (snd (process_transaction env tid d))"
  shows "t \<in> set d \<or> (\<exists>t0 \<in> set d. transaction_id t0 = tid \<and> t = row_effect env t0 t0)"
proof (cases "query_first tid d")
  case None
  then show ?thesis using assms(2) by (simp add: process_transaction_absent)
next
  case (Some t0)
  then show ?thesis
    using assms(2) update_row_unique [OF assms(1) Some, of "row_effect env t0"]
      query_first_Some_D [OF Some]
    by (auto simp: process_transaction_rows)
qed


section \<open>Invariants of histories\<close>

lemma receive_webhook_set:
  assumes "t \<in> set (store (receive_webhook w a b d))"
  shows "t \<in> set d \<or> fresh_row t"
  using assms
  by (auto simp: receive_webhook_def Let_def fresh_row_def split: option.splits)

lemma apply_operation_invariant:
  assumes pk: "primary_key_ok d" and inv: "\<forall>t\<in>set d. P t"
    and fresh: "\<And>t. fresh_row t \<Longrightarrow> P t"
    and run: "\<And>env tid t. x = Run env tid \<Longrightarrow> P t \<Longrightarrow> P (row_effect env t t)"
  shows "\<forall>t\<in>set (apply_operation d x). P t"
proof (cases x)
  case (Ingest w a b)
  show ?thesis
    using receive_webhook_set [of _ w a b d] inv fresh by (auto simp: Ingest)
next
  case (Run env tid)
  show ?thesis
    using process_transaction_set [OF pk, of _ env tid] inv run [OF Run]
    by (auto simp: Run)
qed

lemma execute_invariant:
  assumes "primary_key_ok d" and "\<forall>t\<in>set d. P t"
    and "\<And>t. fresh_row t \<Longrightarrow> P t"
    and "\<And>env tid t. Run env tid \<in> set ops \<Longrightarrow> P t \<Longrightarrow> P (row_effect env t t)"
  shows "\<forall>t\<in>set (execute ops d). P t"
  using assms
proof (induction ops arbitrary: d)
  case Nil
  then show ?case by (simp add: execute_def)
next
  case (Cons x xs)
  have step: "\<forall>t\<in>set (apply_operation d x). P t"
  proof (rule apply_operation_invariant [OF Cons.prems(1,2,3)])
    fix env tid t
    assume "x = Run env tid" and "P t"
    then show "P (row_effect env t t)" using Cons.prems(4) [of env tid t] by simp
  qed (assumption)
  have "\<forall>t\<in>set (execute xs (apply_operation d x)). P t"
  proof (rule Cons.IH [OF primary_key_apply [OF Cons.prems(1)] step Cons.prems(3)])
    fix env tid t
    assume "Run env tid \<in> set xs" and "P t"
    then show "P (row_effect env t t)" using Cons.prems(4) [of env tid t] by simp
  qed (assumption)
  then show ?case by (simp add: execute_def)
qed


lemma row_invariant_fresh: "fresh_row t \<Longrightarrow> row_invariant t"
  by (simp add: fresh_row_def row_invariant_def)

lemma row_invariant_run: "row_invariant t \<Longrightarrow> row_invariant (row_effect env t t)"
  by (auto simp: row_invariant_def row_effect_def handled_def mark_processing_def
      mark_processed_def mark_failed_def split: option.splits wait_outcome.splits)

lemma row_invariant_execute: "\<forall>t\<in>set (execute ops []). row_invariant t"
  by (rule execute_invariant) (simp_all add: primary_key_ok_def row_invariant_fresh row_invariant_run)

lemma outcome_consistent_fresh: "fresh_row t \<Longrightarrow> outcome_consistent t"
  by (simp add: fresh_row_def outcome_consistent_def)

lemma outcome_consistent_run:
  "load_fault env = None \<Longrightarrow> outcome_consistent t \<Longrightarrow> outcome_consistent (row_effect env t t)"
  by (auto simp: outcome_consistent_def row_effect_def handled_def mark_processing_def
      mark_processed_def mark_failed_def split: option.splits wait_outcome.splits)


text \<open>
  In a history all of whose runs get past their first query, the outcome columns agree with
  the status in every row.
\<close>

lemma outcome_consistent_when_loaded:
  assumes "\<forall>x\<in>set ops. loads x"
  shows "\<forall>t\<in>set (execute ops []). outcome_consistent t"
proof (rule execute_invariant)
  fix env tid t
  assume "Run env tid \<in> set ops" and t: "outcome_consistent t"
  with assms have "loads (Run env tid)" by blast
  then show "outcome_consistent (row_effect env t t)"
    using t by (simp add: outcome_consistent_run)
qed (simp_all add: primary_key_ok_def outcome_consistent_fresh)


text \<open>A run whose first query succeeds and finds a terminal row returns and writes nothing.\<close>

lemma terminal_absorbing_when_loaded:
  assumes "load_fault env = None" and "query_first tid d = Some t"
    and "status t \<in> set [''PROCESSED'', ''FAILED'']"
  shows "process_transaction env tid d = (Returned, d)"
  using assms by (simp add: process_transaction_def try_block_def)


section \<open>Evaluating the examples\<close>

lemmas example_defs =
  example_webhook_def quiet_env_def example_row_def execute_def receive_webhook_def
  process_transaction_def try_block_def except_block_def query_first_def update_row_def
  mark_processing_def mark_processed_def mark_failed_def acknowledged_def Let_def

lemma example_ingest: "execute [Ingest example_webhook 1 2] [] = [example_row]"
  by (simp add: example_defs)

lemma example_processed:
  "execute [Ingest example_webhook 1 2, Run quiet_env ''t1''] [] =
     [example_row\<lparr>status := ''PROCESSED'', processed_at := Some 33,
        processing_started_at := Some 3\<rparr>]"
  by (simp add: example_defs)


section \<open>The claims\<close>

subsection \<open>C1: ingestion is idempotent\<close>



subsection \<open>C2: the first sighting of an identifier\<close>

text \<open>
  Claim C2, as the code has it. When the identifier of a notification is absent from the
  table, \<open>receive_webhook\<close> appends one row: it carries the identifier and the four
  payload fields of the notification, the two clock readings, \<open>is_processing = False\<close>,
  and the status \<^verbatim>\<open>PROCESSING\<close> (not \<^verbatim>\<open>RECEIVED\<close>). The call acknowledges and hands the
  identifier to \<^verbatim>\<open>process_in_background\<close>, which is what distinguishes the creating call
  from a duplicate.
\<close>

theorem receive_webhook_first_sighting:
  assumes "w_transaction_id w \<notin> set (map transaction_id d)"
  shows "\<exists>t. store (receive_webhook w a b d) = d @ [t] \<and>
           query_first (w_transaction_id w) (store (receive_webhook w a b d)) = Some t \<and>
           transaction_id t = w_transaction_id w \<and>
           status t = ''PROCESSING'' \<and>
           source_account t = w_source_account w \<and>
           destination_account t = w_destination_account w \<and>
           amount t = w_amount w \<and>
           currency t = w_currency w \<and>
           is_processing t = False \<and>
           created_at t = a \<and> webhook_received_at t = b \<and>
           response (receive_webhook w a b d) = acknowledged (w_transaction_id w) \<and>
           dispatched (receive_webhook w a b d) = Some (w_transaction_id w)"
proof -
  have none: "query_first (w_transaction_id w) d = None"
    using assms by (simp add: query_first_None_iff)
  show ?thesis
    by (simp add: receive_webhook_def Let_def none query_first_append)
       (simp add: query_first_def)
qed

theorem receive_webhook_first_sighting_witness:
  "''t1'' \<notin> set (map transaction_id []) \<and>
   store (receive_webhook example_webhook 1 2 []) = [example_row] \<and>
   status example_row = ''PROCESSING'' \<and>
   dispatched (receive_webhook example_webhook 1 2 []) = Some ''t1''"
proof -
  have id1: "w_transaction_id example_webhook = ''t1''" by (simp add: example_webhook_def)
  have absent: "w_transaction_id example_webhook \<notin> set (map transaction_id [])" by simp
  have row: "store (receive_webhook example_webhook 1 2 []) = [example_row]"
    using example_ingest by (simp add: execute_def)
  show ?thesis
    using receive_webhook_first_sighting [OF absent, of 1 2] row id1
    by (simp add: example_row_def)
qed

text \<open>
  The claim as stated fails: the row that the scenario notification creates in the empty
  table is persisted with the status \<^verbatim>\<open>PROCESSING\<close>. The column default in database.py and
  its comment name the same three values, and \<^verbatim>\<open>RECEIVED\<close> occurs nowhere in the code.
\<close>

theorem receive_webhook_status_counterexample:
  "''t1'' \<notin> set (map transaction_id []) \<and>
   map status (store (receive_webhook example_webhook 1 2 [])) = [''PROCESSING''] \<and>
   map status (store (receive_webhook example_webhook 1 2 [])) \<noteq> [''RECEIVED'']"
  by (simp add: receive_webhook_def example_webhook_def query_first_def Let_def)

subsection \<open>C3: terminal rows and later runs\<close>

text \<open>
  Claim C3 says that a run for an identifier whose row is \<^verbatim>\<open>PROCESSED\<close> or \<^verbatim>\<open>FAILED\<close> changes
  no field. The guard of \<open>process_transaction\<close> gives this whenever the first query of the
  run succeeds (lemma \<open>terminal_absorbing_when_loaded\<close>). The first query stands inside
  the \<^verbatim>\<open>try\<close>, though, and the \<^verbatim>\<open>except\<close> clause has no such guard: when the first query
  raises and the store answers again in the handler, the handler marks the reloaded row
  failed whatever its status. Evaluated on the processed scenario row: the run returns, and
  the row is now \<^verbatim>\<open>FAILED\<close> with an error message, its \<open>processed_at\<close> still set.
\<close>

theorem terminal_record_overwritten:
  "query_first ''t1'' (execute [Ingest example_webhook 1 2, Run quiet_env ''t1''] []) =
     Some (example_row\<lparr>status := ''PROCESSED'', processed_at := Some 33,
        processing_started_at := Some 3\<rparr>) \<and>
   process_transaction (quiet_env\<lparr>load_fault := Some ''database is locked''\<rparr>) ''t1''
     (execute [Ingest example_webhook 1 2, Run quiet_env ''t1''] []) =
     (Returned,
      [example_row\<lparr>status := ''FAILED'', processed_at := Some 33,
         processing_started_at := Some 3, error_message := Some ''database is locked''\<rparr>])"
  by (simp only: example_processed)
     (simp add: example_row_def quiet_env_def process_transaction_def try_block_def
        except_block_def query_first_def update_row_def mark_failed_def)

subsection \<open>C4: a run that completes\<close>

text \<open>
  Claim C4, as the code has it. Let the row for \<open>tid\<close> exist in a non-terminal status, and
  let the run get through its external step: the first query and the commit that marks the
  row do not raise, and the wait completes. If moreover the commit of the final write does
  not raise, the run returns, and the persisted row is the old one with
  \<open>status = PROCESSED\<close>, \<open>processed_at\<close> set to the clock reading,
  \<open>is_processing = False\<close> and \<open>processing_started_at\<close> set.
\<close>

theorem run_reaches_processed:
  assumes "query_first tid d = Some t" and "status t \<notin> set [''PROCESSED'', ''FAILED'']"
    and "load_fault env = None" and "mark_fault env = None" and "wait env = Completed"
    and "done_fault env = None"
  shows "fst (process_transaction env tid d) = Returned \<and>
         query_first tid (snd (process_transaction env tid d)) =
           Some (t\<lparr>status := ''PROCESSED'', processed_at := Some (now_processed env),
                   is_processing := False,
                   processing_started_at := Some (now_started env)\<rparr>)"
proof -
  have "fst (process_transaction env tid d) = Returned"
    using assms by (simp add: process_transaction_def try_block_def Let_def)
  moreover have "row_effect env t =
      mark_processed (now_processed env) \<circ> mark_processing (now_started env)"
    using assms by (simp add: row_effect_def)
  ultimately show ?thesis
    using assms(1)
    by (simp add: process_transaction_rows query_first_update_row
        mark_processed_def mark_processing_def)
qed

theorem run_reaches_processed_witness:
  "query_first ''t1'' [example_row] = Some example_row \<and>
   status example_row \<notin> set [''PROCESSED'', ''FAILED''] \<and>
   fst (process_transaction quiet_env ''t1'' [example_row]) = Returned \<and>
   query_first ''t1'' (snd (process_transaction quiet_env ''t1'' [example_row])) =
     Some (example_row\<lparr>status := ''PROCESSED'', processed_at := Some 33,
        is_processing := False, processing_started_at := Some 3\<rparr>)"
proof -
  have q: "query_first ''t1'' [example_row] = Some example_row"
    by (simp add: query_first_def example_row_def)
  have s: "status example_row \<notin> set [''PROCESSED'', ''FAILED'']"
    by (simp add: example_row_def)
  have e: "load_fault quiet_env = None" "mark_fault quiet_env = None"
    "wait quiet_env = Completed" "done_fault quiet_env = None"
    "now_processed quiet_env = 33" "now_started quiet_env = 3"
    by (simp_all add: quiet_env_def)
  show ?thesis
    using run_reaches_processed [OF q s e(1) e(2) e(3) e(4)] q s e(5) e(6) by simp
qed

text \<open>
  The claim as stated asks only that the external step completes without fault. The commit
  that follows the wait stands inside the same \<^verbatim>\<open>try\<close>: when it raises, nothing of the
  final write is persisted, the session refuses the query of the handler, and that refusal
  leaves the run. The persisted row stays \<^verbatim>\<open>PROCESSING\<close> with \<open>is_processing = True\<close>,
  and \<open>processed_at\<close> stays unset.
\<close>

theorem run_reaches_processed_counterexample:
  "query_first ''t1'' [example_row] = Some example_row \<and>
   status example_row = ''PROCESSING'' \<and>
   load_fault (quiet_env\<lparr>done_fault := Some ''database is locked''\<rparr>) = None \<and>
   mark_fault (quiet_env\<lparr>done_fault := Some ''database is locked''\<rparr>) = None \<and>
   wait (quiet_env\<lparr>done_fault := Some ''database is locked''\<rparr>) = Completed \<and>
   process_transaction (quiet_env\<lparr>done_fault := Some ''database is locked''\<rparr>) ''t1''
     [example_row] =
     (Propagated Pending_rollback,
      [example_row\<lparr>is_processing := True, processing_started_at := Some 3\<rparr>]) \<and>
   status (example_row\<lparr>is_processing := True, processing_started_at := Some 3\<rparr>) \<noteq>
     ''PROCESSED'' \<and>
   processed_at (example_row\<lparr>is_processing := True, processing_started_at := Some 3\<rparr>) = None \<and>
   is_processing (example_row\<lparr>is_processing := True, processing_started_at := Some 3\<rparr>)"
  by (simp add: example_defs)

subsection \<open>C5: a run that faults\<close>

text \<open>
  Claim C5 says that a fault raised in steps 3 to 5 ends in a persisted \<^verbatim>\<open>FAILED\<close> row with
  the fault as its error message, and never leaves the run. The \<^verbatim>\<open>except\<close> clause is
  written to do that, but the faults of steps 3 to 5 that it can catch are those of the two
  commits, and it queries the session again without rolling it back. Evaluated on the
  scenario row: when the commit that marks the row raises, the run ends with the refusal of
  the session and the row is as before; when the commit of the final write raises, the run
  ends the same way and the row stays \<^verbatim>\<open>PROCESSING\<close> with \<open>is_processing = True\<close>. In
  neither case is \<^verbatim>\<open>FAILED\<close> or an error message persisted.
\<close>

theorem commit_fault_not_recorded:
  "process_transaction (quiet_env\<lparr>mark_fault := Some ''database is locked''\<rparr>) ''t1''
     [example_row] =
     (Propagated Pending_rollback, [example_row]) \<and>
   process_transaction (quiet_env\<lparr>done_fault := Some ''disk I/O error''\<rparr>) ''t1''
     [example_row] =
     (Propagated Pending_rollback,
      [example_row\<lparr>is_processing := True, processing_started_at := Some 3\<rparr>]) \<and>
   status example_row = ''PROCESSING'' \<and> error_message example_row = None \<and>
   error_message (example_row\<lparr>is_processing := True, processing_started_at := Some 3\<rparr>) = None"
  by (simp add: example_defs)

subsection \<open>C6: outcome columns and status\<close>

text \<open>
  Claim C6 says that in every reachable table \<open>processed_at\<close> is set exactly in the
  \<^verbatim>\<open>PROCESSED\<close> rows and \<open>error_message\<close> exactly in the \<^verbatim>\<open>FAILED\<close> rows, runs that fault
  included. This holds for the histories whose runs all get past their first query (lemma
  \<open>outcome_consistent_when_loaded\<close>). It fails through the unguarded handler of C3: after
  an ingest call, a run that processes the row, and a second run whose first query raises,
  the row is \<^verbatim>\<open>FAILED\<close> and has both \<open>processed_at\<close> and \<open>error_message\<close> set.
\<close>

theorem outcome_fields_inconsistent:
  "map status (execute [Ingest example_webhook 1 2, Run quiet_env ''t1'',
      Run (quiet_env\<lparr>load_fault := Some ''database is locked''\<rparr>) ''t1''] []) = [''FAILED''] \<and>
   map processed_at (execute [Ingest example_webhook 1 2, Run quiet_env ''t1'',
      Run (quiet_env\<lparr>load_fault := Some ''database is locked''\<rparr>) ''t1''] []) = [Some 33] \<and>
   map error_message (execute [Ingest example_webhook 1 2, Run quiet_env ''t1'',
      Run (quiet_env\<lparr>load_fault := Some ''database is locked''\<rparr>) ''t1''] []) =
     [Some ''database is locked'']"
  by (simp add: example_defs)

subsection \<open>C7: rows in flight\<close>

text \<open>
  Claim C7. In every table that a history of ingest calls and processor runs (with any
  faults) reaches from the empty table, a row with \<open>is_processing = True\<close> has the status
  \<^verbatim>\<open>PROCESSING\<close>.
\<close>

theorem is_processing_implies_processing:
  "\<forall>t\<in>set (execute ops []). is_processing t \<longrightarrow> status t = ''PROCESSING''"
  using row_invariant_execute [of ops] by (simp add: row_invariant_def)

text \<open>An instance with a row in flight: the run is cut during its wait.\<close>

theorem is_processing_implies_processing_witness:
  "execute [Ingest example_webhook 1 2, Run (quiet_env\<lparr>wait := Cut\<rparr>) ''t1''] [] =
     [example_row\<lparr>is_processing := True, processing_started_at := Some 3\<rparr>] \<and>
   is_processing (example_row\<lparr>is_processing := True, processing_started_at := Some 3\<rparr>) \<and>
   status (example_row\<lparr>is_processing := True, processing_started_at := Some 3\<rparr>) = ''PROCESSING''"
proof -
  have e: "execute [Ingest example_webhook 1 2, Run (quiet_env\<lparr>wait := Cut\<rparr>) ''t1''] [] =
     [example_row\<lparr>is_processing := True, processing_started_at := Some 3\<rparr>]"
    by (simp add: example_defs)
  show ?thesis
    using is_processing_implies_processing
      [of "[Ingest example_webhook 1 2, Run (quiet_env\<lparr>wait := Cut\<rparr>) ''t1'']"] e
    by simp
qed

subsection \<open>C8: listing\<close>

text \<open>
  Claim C8. For every table, \<open>list_transactions\<close> returns exactly the stored rows (as a
  multiset), ordered by \<open>webhook_received_at\<close> descending.
\<close>

theorem list_transactions_all_descending:
  "mset (list_transactions d) = mset d \<and>
   sorted_wrt (\<lambda>x y. webhook_received_at x \<ge> webhook_received_at y) (list_transactions d)"
proof -
  have "sorted (map webhook_received_at (sort_key webhook_received_at d))"
    by (rule sorted_sort_key)
  then have "sorted_wrt (\<lambda>x y. webhook_received_at x \<le> webhook_received_at y)
      (sort_key webhook_received_at d)"
    by (simp add: sorted_map)
  then show ?thesis
    by (simp add: list_transactions_def sorted_wrt_rev)
qed

theorem list_transactions_all_descending_witness:
  "mset (list_transactions [example_row, example_row\<lparr>transaction_id := ''t2'', webhook_received_at := 9\<rparr>]) =
     mset [example_row, example_row\<lparr>transaction_id := ''t2'', webhook_received_at := 9\<rparr>] \<and>
   map transaction_id (list_transactions
     [example_row, example_row\<lparr>transaction_id := ''t2'', webhook_received_at := 9\<rparr>]) = [''t2'', ''t1'']"
  using list_transactions_all_descending
    [of "[example_row, example_row\<lparr>transaction_id := ''t2'', webhook_received_at := 9\<rparr>]"]
  by (simp add: list_transactions_def example_row_def)

subsection \<open>C10: the statuses that are ever persisted\<close>

text \<open>
  Claim C10. In every table that a history of ingest calls and processor runs reaches from
  the empty table, the status of every row is \<^verbatim>\<open>PROCESSING\<close>, \<^verbatim>\<open>PROCESSED\<close> or \<^verbatim>\<open>FAILED\<close>,
  never \<^verbatim>\<open>RECEIVED\<close>; so neither \<open>get_transaction\<close> nor \<open>list_transactions\<close> ever
  returns a row with the status \<^verbatim>\<open>RECEIVED\<close>.
\<close>

theorem status_values_reachable:
  "(\<forall>t\<in>set (execute ops []).
      status t \<in> set [''PROCESSING'', ''PROCESSED'', ''FAILED''] \<and> status t \<noteq> ''RECEIVED'') \<and>
   (\<forall>ts. get_transaction tid (execute ops []) = Inr ts \<longrightarrow>
      (\<forall>t\<in>set ts. status t \<noteq> ''RECEIVED'')) \<and>
   (\<forall>t\<in>set (list_transactions (execute ops [])). status t \<noteq> ''RECEIVED'')"
proof -
  have inv: "\<forall>t\<in>set (execute ops []). row_invariant t"
    by (rule row_invariant_execute)
  have a: "\<forall>t\<in>set (execute ops []).
      status t \<in> set [''PROCESSING'', ''PROCESSED'', ''FAILED''] \<and> status t \<noteq> ''RECEIVED''"
    using inv by (auto simp: row_invariant_def)
  have b: "\<forall>ts. get_transaction tid (execute ops []) = Inr ts \<longrightarrow>
      (\<forall>t\<in>set ts. status t \<noteq> ''RECEIVED'')"
    using a by (auto simp: get_transaction_def split: option.splits dest: query_first_Some_D)
  have "set (list_transactions (execute ops [])) = set (execute ops [])"
    by (simp add: list_transactions_def)
  with a b show ?thesis by simp
qed

theorem status_values_reachable_witness:
  "execute [Ingest example_webhook 1 2, Run quiet_env ''t1''] [] =
     [example_row\<lparr>status := ''PROCESSED'', processed_at := Some 33,
        processing_started_at := Some 3\<rparr>] \<and>
   status (example_row\<lparr>status := ''PROCESSED'', processed_at := Some 33,
        processing_started_at := Some 3\<rparr>) \<noteq> ''RECEIVED'' \<and>
   get_transaction ''t1'' (execute [Ingest example_webhook 1 2, Run quiet_env ''t1''] []) =
     Inr [example_row\<lparr>status := ''PROCESSED'', processed_at := Some 33,
        processing_started_at := Some 3\<rparr>]"
  using status_values_reachable [of "[Ingest example_webhook 1 2, Run quiet_env ''t1'']" "''t1''"]
    example_processed
  by (simp add: get_transaction_def query_first_def example_row_def)

end
